theory Spec2Isabelle
  imports Main
begin

section \<open>Time\<close>

text \<open>
  Python's \<^verbatim>\<open>datetime\<close> and \<^verbatim>\<open>timedelta\<close> have microsecond resolution. A naive UTC
  \<^verbatim>\<open>datetime\<close> is modelled as the number of microseconds since a fixed epoch, a
  \<^verbatim>\<open>timedelta\<close> as a signed number of microseconds. Subtracting a \<^verbatim>\<open>timedelta\<close> from a
  \<^verbatim>\<open>datetime\<close>, adding one, subtracting two \<^verbatim>\<open>datetime\<close>s and comparing them are then
  integer arithmetic.
\<close>

type_synonym datetime = int
type_synonym timedelta = int

definition seconds :: "int \<Rightarrow> timedelta" where
  "seconds n = n * 1000000"

definition minutes :: "int \<Rightarrow> timedelta" where
  "minutes n = n * 60000000"

definition hours :: "int \<Rightarrow> timedelta" where
  "hours n = n * 3600000000"

text \<open>
  \<^verbatim>\<open>int(remaining.total_seconds())\<close>: \<^verbatim>\<open>total_seconds\<close> divides the microseconds by
  \<open>10\<^sup>6\<close> and \<^verbatim>\<open>int\<close> truncates towards zero. The division is carried out exactly here;
  the float of the source agrees with it after truncation for every duration shorter than
  some 280 years.
\<close>

definition int_total_seconds :: "timedelta \<Rightarrow> int" where
  "int_total_seconds d = (if 0 \<le> d then d div 1000000 else - ((- d) div 1000000))"

section \<open>Tables (models.py)\<close>

text \<open>
  The auto-increment primary key of a row is assigned by the database and read by none of
  the functions below; the position of a row in its table stands for it. The column
  \<^verbatim>\<open>ip_address\<close> is declared nullable. \<^verbatim>\<open>success\<close> is an integer column with default 0
  (0 = failed, 1 = success). A user row is found by its \<^verbatim>\<open>username\<close> only, so rows
  without one are left out of the table.
\<close>

record User =
  username :: string
  email :: string
  hashed_password :: string

record LoginAttempt =
  username :: string
  ip_address :: "string option"
  success :: int
  timestamp :: datetime

text \<open>The database session: the two tables the login path reads and writes.\<close>

record Session =
  users :: "User list"
  login_attempts :: "LoginAttempt list"

section \<open>Queries\<close>

text \<open>
  \<^verbatim>\<open>db.query(models.LoginAttempt).filter(username == u, success == 0, timestamp >= since)\<close>:
  the rows of the table that satisfy the three conditions.
\<close>

definition failed_attempts_since :: "Session \<Rightarrow> string \<Rightarrow> datetime \<Rightarrow> LoginAttempt list" where
  "failed_attempts_since db uname since =
     filter (\<lambda>a. LoginAttempt.username a = uname \<and> success a = 0 \<and> since \<le> timestamp a)
       (login_attempts db)"

text \<open>
  \<^verbatim>\<open>.order_by(models.LoginAttempt.timestamp.asc())\<close>. Rows with equal timestamps come in
  an order that the database chooses; here they keep the order of the table. The functions
  below read nothing but the timestamp of the first row, which is the same in every such
  order.
\<close>

definition order_by_timestamp_asc :: "LoginAttempt list \<Rightarrow> LoginAttempt list" where
  "order_by_timestamp_asc rows = sort_key timestamp rows"

text \<open>\<^verbatim>\<open>.limit(1).first()\<close>: the first row of the result, or \<^verbatim>\<open>None\<close>.\<close>

definition first :: "'a list \<Rightarrow> 'a option" where
  "first rows = (case rows of [] \<Rightarrow> None | r # _ \<Rightarrow> Some r)"

section \<open>Rate limiting functions (main.py)\<close>

text \<open>
  Each call of \<^verbatim>\<open>datetime.utcnow()\<close> is a separate reading of the clock; the readings are
  parameters, in the order in which the function takes them.
\<close>

definition log_login_attempt ::
  "Session \<Rightarrow> string \<Rightarrow> string \<Rightarrow> bool \<Rightarrow> datetime \<Rightarrow> Session" where
  "log_login_attempt db uname ip ok now =
     (let login_attempt = \<lparr>LoginAttempt.username = uname, ip_address = Some ip,
                            success = (if ok then 1 else 0), timestamp = now\<rparr>
      in db\<lparr>login_attempts := login_attempts db @ [login_attempt]\<rparr>)"

definition is_user_blocked :: "Session \<Rightarrow> string \<Rightarrow> datetime \<Rightarrow> datetime \<Rightarrow> bool" where
  "is_user_blocked db uname now1 now2 =
     (let one_minute_ago = now1 - minutes 1;
          failed_attempts = length (failed_attempts_since db uname one_minute_ago)
      in if 5 \<le> failed_attempts then
           (let thirty_minutes_ago = now2 - minutes 30;
                fifth_attempt =
                  first (order_by_timestamp_asc (failed_attempts_since db uname one_minute_ago))
            in case fifth_attempt of
                 None \<Rightarrow> False
               | Some a \<Rightarrow> if thirty_minutes_ago \<le> timestamp a then True else False)
         else False)"

definition get_block_remaining_time :: "Session \<Rightarrow> string \<Rightarrow> datetime \<Rightarrow> datetime \<Rightarrow> int" where
  "get_block_remaining_time db uname now1 now2 =
     (let one_minute_ago = now1 - minutes 1;
          fifth_attempt =
            first (order_by_timestamp_asc (failed_attempts_since db uname one_minute_ago))
      in case fifth_attempt of
           Some a \<Rightarrow>
             (let block_end = timestamp a + minutes 30;
                  remaining = block_end - now2
              in max 0 (int_total_seconds remaining))
         | None \<Rightarrow> 0)"

section \<open>Credentials (auth.py, crud.py)\<close>

text \<open>\<^verbatim>\<open>db.query(models.User).filter(models.User.username == username).first()\<close>\<close>

definition get_user :: "Session \<Rightarrow> string \<Rightarrow> User option" where
  "get_user db uname = first (filter (\<lambda>u. User.username u = uname) (users db))"

definition get_user_by_username :: "Session \<Rightarrow> string \<Rightarrow> User option" where
  "get_user_by_username db uname = first (filter (\<lambda>u. User.username u = uname) (users db))"

text \<open>
  An exception other than \<^verbatim>\<open>HTTPException\<close>, with its message. A call that can raise
  one returns a sum, \<open>Inl\<close> the exception.
\<close>

datatype exception = Exception string

text \<open>
  \<^verbatim>\<open>verify_password\<close> hands the password and the stored hash to the hashing library,
  which answers or raises (on a password with a NUL character, for one); it is a
  parameter. \<^verbatim>\<open>authenticate_user\<close> returns \<^verbatim>\<open>False\<close> or the user row, \<open>None\<close> standing
  for \<^verbatim>\<open>False\<close>, and passes on what the library raises.
\<close>

definition authenticate_user ::
  "(string \<Rightarrow> string \<Rightarrow> exception + bool) \<Rightarrow> Session \<Rightarrow> string \<Rightarrow> string \<Rightarrow>
   exception + User option" where
  "authenticate_user verify_password db uname pw =
     (case get_user db uname of
        None \<Rightarrow> Inr None
      | Some user \<Rightarrow>
          (case verify_password pw (hashed_password user) of
             Inl e \<Rightarrow> Inl e
           | Inr verified \<Rightarrow> if \<not> verified then Inr None else Inr (Some user)))"

section \<open>The login and token endpoints (main.py)\<close>

text \<open>Python's \<^verbatim>\<open>str\<close> of an integer, as the f-string of the 429 message formats it.\<close>

fun digits10 :: "nat \<Rightarrow> string" where
  "digits10 n =
     (if n < 10 then [char_of (48 + n)] else digits10 (n div 10) @ [char_of (48 + n mod 10)])"

declare digits10.simps [simp del]

definition str_int :: "int \<Rightarrow> string" where
  "str_int i = (if i < 0 then CHR ''-'' # digits10 (nat (- i)) else digits10 (nat i))"

record HTTPException =
  status_code :: int
  detail :: string
  headers :: "(string \<times> string) list"

record Token =
  access_token :: string
  token_type :: string

record Address =
  host :: string
  port :: int

record Request =
  client :: "Address option"

record OAuth2PasswordRequestForm =
  username :: string
  password :: string

definition HTTP_401_UNAUTHORIZED :: int where
  "HTTP_401_UNAUTHORIZED = 401"

definition HTTP_429_TOO_MANY_REQUESTS :: int where
  "HTTP_429_TOO_MANY_REQUESTS = 429"

definition HTTP_500_INTERNAL_SERVER_ERROR :: int where
  "HTTP_500_INTERNAL_SERVER_ERROR = 500"

text \<open>
  The readings of \<^verbatim>\<open>datetime.utcnow()\<close> that one request can take, named by the place
  that takes them: the two of \<^verbatim>\<open>is_user_blocked\<close>, the two of
  \<^verbatim>\<open>get_block_remaining_time\<close>, the one of \<^verbatim>\<open>log_login_attempt\<close> and the one of
  \<^verbatim>\<open>create_access_token\<close>.
\<close>

record Clock =
  blocked_now1 :: datetime
  blocked_now2 :: datetime
  remaining_now1 :: datetime
  remaining_now2 :: datetime
  log_now :: datetime
  token_now :: datetime

definition blocked_detail :: "int \<Rightarrow> string" where
  "blocked_detail remaining_time =
     ''Account temporarily blocked due to too many failed login attempts. Please try again in ''
     @ str_int (remaining_time div 60) @ '' minutes and ''
     @ str_int (remaining_time mod 60) @ '' seconds.''"

definition incorrect_credentials :: HTTPException where
  "incorrect_credentials =
     \<lparr>status_code = HTTP_401_UNAUTHORIZED,
      detail = ''Incorrect username or password'',
      headers = [(''WWW-Authenticate'', ''Bearer'')]\<rparr>"

text \<open>
  A handler returns the response (\<open>Inl\<close> the \<^verbatim>\<open>HTTPException\<close> it raises) and the
  database it leaves. \<^verbatim>\<open>create_access_token\<close> signs the claims with the JWT library and
  passes on what that raises; it is a parameter taking the subject, the lifetime and its
  reading of the clock. The body of a handler is a \<^verbatim>\<open>try\<close>: an \<^verbatim>\<open>HTTPException\<close> is
  raised again as it is, every other exception becomes the 500 answer of the handler, and
  the database stays as the statements before the exception have committed it. An
  exception without headers has the empty list. The queries and the commit do not raise
  here. Writing to the application log and to standard output is left out.
\<close>

definition login_error :: HTTPException where
  "login_error =
     \<lparr>status_code = HTTP_500_INTERNAL_SERVER_ERROR,
      detail = ''An error occurred during login. Please try again later.'',
      headers = []\<rparr>"

definition token_error :: HTTPException where
  "token_error =
     \<lparr>status_code = HTTP_500_INTERNAL_SERVER_ERROR,
      detail = ''An error occurred during token creation. Please try again later.'',
      headers = []\<rparr>"

definition login ::
  "(string \<Rightarrow> string \<Rightarrow> exception + bool) \<Rightarrow>
   (string \<Rightarrow> timedelta \<Rightarrow> datetime \<Rightarrow> exception + string) \<Rightarrow>
   Session \<Rightarrow> Request \<Rightarrow> OAuth2PasswordRequestForm \<Rightarrow> Clock \<Rightarrow>
   (HTTPException + Token) \<times> Session" where
  "login verify_password create_access_token db request form_data clk =
     (let client_ip = (case client request of Some c \<Rightarrow> host c | None \<Rightarrow> ''unknown'');
          uname = OAuth2PasswordRequestForm.username form_data
      in if is_user_blocked db uname (blocked_now1 clk) (blocked_now2 clk) then
           (let remaining_time =
                  get_block_remaining_time db uname (remaining_now1 clk) (remaining_now2 clk)
            in (Inl \<lparr>status_code = HTTP_429_TOO_MANY_REQUESTS,
                      detail = blocked_detail remaining_time,
                      headers = [(''WWW-Authenticate'', ''Bearer'')]\<rparr>, db))
         else
           (case get_user_by_username db uname of
              None \<Rightarrow>
                (Inl incorrect_credentials,
                 log_login_attempt db uname client_ip False (log_now clk))
            | Some db_user \<Rightarrow>
                (case authenticate_user verify_password db uname (password form_data) of
                   Inl e \<Rightarrow> (Inl login_error, db)
                 | Inr None \<Rightarrow>
                     (Inl incorrect_credentials,
                      log_login_attempt db uname client_ip False (log_now clk))
                 | Inr (Some user) \<Rightarrow>
                     (let db' = log_login_attempt db uname client_ip True (log_now clk);
                          access_token_expires = hours 24
                      in case create_access_token (User.username user) access_token_expires
                                (token_now clk) of
                           Inl e \<Rightarrow> (Inl login_error, db')
                         | Inr encoded_jwt \<Rightarrow>
                             (Inr \<lparr>access_token = encoded_jwt, token_type = ''bearer''\<rparr>,
                              db')))))"

definition login_for_access_token ::
  "(string \<Rightarrow> string \<Rightarrow> exception + bool) \<Rightarrow>
   (string \<Rightarrow> timedelta \<Rightarrow> datetime \<Rightarrow> exception + string) \<Rightarrow>
   Session \<Rightarrow> Request \<Rightarrow> OAuth2PasswordRequestForm \<Rightarrow> Clock \<Rightarrow>
   (HTTPException + Token) \<times> Session" where
  "login_for_access_token verify_password create_access_token db request form_data clk =
     (let client_ip = (case client request of Some c \<Rightarrow> host c | None \<Rightarrow> ''unknown'');
          uname = OAuth2PasswordRequestForm.username form_data
      in if is_user_blocked db uname (blocked_now1 clk) (blocked_now2 clk) then
           (let remaining_time =
                  get_block_remaining_time db uname (remaining_now1 clk) (remaining_now2 clk)
            in (Inl \<lparr>status_code = HTTP_429_TOO_MANY_REQUESTS,
                      detail = blocked_detail remaining_time,
                      headers = [(''WWW-Authenticate'', ''Bearer'')]\<rparr>, db))
         else
           (case authenticate_user verify_password db uname (password form_data) of
              Inl e \<Rightarrow> (Inl token_error, db)
            | Inr None \<Rightarrow>
                (Inl incorrect_credentials,
                 log_login_attempt db uname client_ip False (log_now clk))
            | Inr (Some user) \<Rightarrow>
                (let db' = log_login_attempt db uname client_ip True (log_now clk);
                     access_token_expires = hours 24
                 in case create_access_token (User.username user) access_token_expires
                           (token_now clk) of
                      Inl e \<Rightarrow> (Inl token_error, db')
                    | Inr encoded_jwt \<Rightarrow>
                        (Inr \<lparr>access_token = encoded_jwt, token_type = ''bearer''\<rparr>,
                         db'))))"

section \<open>Requests served one after another\<close>

text \<open>
  Both endpoints are routes of one application over one database: a call names the
  endpoint, carries the request, the form and the clock readings it will take, and is
  served on the database that the calls before it have left.
\<close>

datatype endpoint = LoginEndpoint | TokenEndpoint

record Call =
  endpoint :: endpoint
  request :: Request
  form_data :: OAuth2PasswordRequestForm
  clock :: Clock

definition handle ::
  "(string \<Rightarrow> string \<Rightarrow> exception + bool) \<Rightarrow>
   (string \<Rightarrow> timedelta \<Rightarrow> datetime \<Rightarrow> exception + string) \<Rightarrow>
   Session \<Rightarrow> Call \<Rightarrow> (HTTPException + Token) \<times> Session" where
  "handle verify_password create_access_token db c =
     (case endpoint c of
        LoginEndpoint \<Rightarrow>
          login verify_password create_access_token db (request c) (form_data c) (clock c)
      | TokenEndpoint \<Rightarrow>
          login_for_access_token verify_password create_access_token db (request c)
            (form_data c) (clock c))"

fun serve ::
  "(string \<Rightarrow> string \<Rightarrow> exception + bool) \<Rightarrow>
   (string \<Rightarrow> timedelta \<Rightarrow> datetime \<Rightarrow> exception + string) \<Rightarrow>
   Session \<Rightarrow> Call list \<Rightarrow> (HTTPException + Token) list \<times> Session" where
  "serve verify_password create_access_token db [] = ([], db)"
| "serve verify_password create_access_token db (c # cs) =
     (let (response, db') = handle verify_password create_access_token db c;
          (responses, db'') = serve verify_password create_access_token db' cs
      in (response # responses, db''))"

text \<open>The status code a client sees: that of the exception, or 200 with the token.\<close>

definition response_status :: "HTTPException + Token \<Rightarrow> int" where
  "response_status r = (case r of Inl e \<Rightarrow> status_code e | Inr _ \<Rightarrow> 200)"

text \<open>The address a handler records: \<^verbatim>\<open>request.client.host if request.client else "unknown"\<close>.\<close>

definition client_ip_of :: "Request \<Rightarrow> string" where
  "client_ip_of req = (case client req of Some c \<Rightarrow> host c | None \<Rightarrow> ''unknown'')"

text \<open>The row that a call records when it is not rejected as blocked.\<close>

definition attempt_row :: "Call \<Rightarrow> bool \<Rightarrow> LoginAttempt" where
  "attempt_row c ok =
     \<lparr>LoginAttempt.username = OAuth2PasswordRequestForm.username (form_data c),
      ip_address = Some (client_ip_of (request c)),
      success = (if ok then 1 else 0),
      timestamp = log_now (clock c)\<rparr>"

section \<open>The count-only reading of the block check\<close>

text \<open>
  The number of failed attempts of a user name whose timestamp is at least one minute
  before \<open>now\<close>, and the block check that looks at this number alone.
\<close>

definition recent_failure_count :: "Session \<Rightarrow> string \<Rightarrow> datetime \<Rightarrow> nat" where
  "recent_failure_count db uname now =
     length (filter (\<lambda>a. LoginAttempt.username a = uname \<and> success a = 0
                          \<and> now - minutes 1 \<le> timestamp a) (login_attempts db))"

definition blocked_by_count :: "Session \<Rightarrow> string \<Rightarrow> datetime \<Rightarrow> bool" where
  "blocked_by_count db uname now = (5 \<le> recent_failure_count db uname now)"

section \<open>Example data\<close>

text \<open>
  A database with two registered users and no attempt recorded yet; a hashing library
  that raises on a password with a NUL character and otherwise accepts for a stored hash
  \<open>h\<close> the one password \<open>h\<close> reversed; a token that names its subject; a password
  with a NUL character in it.
\<close>

definition fresh_db :: Session where
  "fresh_db =
     \<lparr>users = [\<lparr>User.username = ''alice'', email = ''alice@example.com'',
                 hashed_password = ''1ecila''\<rparr>,
               \<lparr>User.username = ''carol'', email = ''carol@example.com'',
                 hashed_password = ''1lorac''\<rparr>],
      login_attempts = []\<rparr>"

definition example_verify :: "string \<Rightarrow> string \<Rightarrow> exception + bool" where
  "example_verify pw h =
     (if CHR 0x00 \<in> set pw then Inl (Exception ''NUL character in password'')
      else Inr (rev pw = h))"

definition example_token :: "string \<Rightarrow> timedelta \<Rightarrow> datetime \<Rightarrow> exception + string" where
  "example_token sub expires_delta now = Inr (''token-of-'' @ sub)"

definition nul_password :: string where
  "nul_password = [CHR ''a'', CHR 0x00, CHR ''b'']"

text \<open>A clock that stands still during a request, and a call that arrives at such an instant.\<close>

definition clock_at :: "datetime \<Rightarrow> Clock" where
  "clock_at t =
     \<lparr>blocked_now1 = t, blocked_now2 = t, remaining_now1 = t, remaining_now2 = t,
      log_now = t, token_now = t\<rparr>"

definition call_at :: "endpoint \<Rightarrow> string \<Rightarrow> string \<Rightarrow> datetime \<Rightarrow> Call" where
  "call_at e uname pw t =
     \<lparr>endpoint = e,
      request = \<lparr>client = Some \<lparr>host = ''127.0.0.1'', port = 50000\<rparr>\<rparr>,
      form_data = \<lparr>OAuth2PasswordRequestForm.username = uname, password = pw\<rparr>,
      clock = clock_at t\<rparr>"

text \<open>Three wrong passwords for carol on the login endpoint, then two on the token endpoint.\<close>

definition carol_calls :: "Call list" where
  "carol_calls =
     [call_at LoginEndpoint ''carol'' ''guess1'' (seconds 100),
      call_at LoginEndpoint ''carol'' ''guess2'' (seconds 110),
      call_at LoginEndpoint ''carol'' ''guess3'' (seconds 120),
      call_at TokenEndpoint ''carol'' ''guess4'' (seconds 130),
      call_at TokenEndpoint ''carol'' ''guess5'' (seconds 140)]"

text \<open>A failed attempt of \<open>uname\<close> recorded at each of the given instants, in that order.\<close>

definition record_failures :: "string \<Rightarrow> datetime list \<Rightarrow> Session \<Rightarrow> Session" where
  "record_failures uname ts db =
     foldl (\<lambda>d t. log_login_attempt d uname ''127.0.0.1'' False t) db ts"

text \<open>Five failures of alice, ten seconds apart, the first at second 100.\<close>

definition alice_db :: Session where
  "alice_db =
     record_failures ''alice''
       [seconds 100, seconds 110, seconds 120, seconds 130, seconds 140] fresh_db"

text \<open>Two failures of alice, thirty seconds apart.\<close>

definition alice_two_db :: Session where
  "alice_two_db = record_failures ''alice'' [seconds 100, seconds 130] fresh_db"

section \<open>The earliest failed attempt of the recent window\<close>

lemma first_order_by_timestamp_asc:
  assumes "rows \<noteq> []"
  shows "\<exists>a. first (order_by_timestamp_asc rows) = Some a \<and> a \<in> set rows
            \<and> timestamp a = Min (timestamp ` set rows)"
proof -
  define ys where "ys = sort_key timestamp rows"
  have s: "sorted (map timestamp ys)" and st: "set ys = set rows"
    by (simp_all add: ys_def)
  from assms st have ne: "ys \<noteq> []" by auto
  then obtain a zs where ys: "ys = a # zs" by (cases ys) auto
  have "timestamp a = Min (timestamp ` set ys)"
  proof (rule sym, rule Min_eqI)
    show "finite (timestamp ` set ys)" by simp
    show "timestamp a \<in> timestamp ` set ys" by (simp add: ys)
    fix y assume "y \<in> timestamp ` set ys"
    with s show "timestamp a \<le> y" by (auto simp: ys)
  qed
  then have "timestamp a = Min (timestamp ` set rows)" by (simp only: st)
  moreover have "a \<in> set rows" using st ys by auto
  moreover have "first (order_by_timestamp_asc rows) = Some a"
    by (simp add: first_def order_by_timestamp_asc_def ys_def[symmetric] ys)
  ultimately show ?thesis by blast
qed

lemma first_order_by_Nil: "first (order_by_timestamp_asc []) = None"
  by (simp add: first_def order_by_timestamp_asc_def)

lemma failed_attempts_since_bound:
  "a \<in> set (failed_attempts_since db uname since) \<Longrightarrow> since \<le> timestamp a"
  by (simp add: failed_attempts_since_def)

lemma failed_attempts_since_subset:
  "set (failed_attempts_since db uname since) \<subseteq> set (login_attempts db)"
  by (auto simp add: failed_attempts_since_def)

lemma earliest_in_window:
  assumes "failed_attempts_since db uname since \<noteq> []"
  shows "since \<le> Min (timestamp ` set (failed_attempts_since db uname since))"
  using assms by (simp add: failed_attempts_since_bound)

lemma int_total_seconds_mono: "d \<le> e \<Longrightarrow> int_total_seconds d \<le> int_total_seconds e"
proof -
  assume de: "d \<le> e"
  have neg: "- ((- x) div 1000000) \<le> (0 :: int)" if "x < 0" for x :: int
    using that by (simp add: pos_imp_zdiv_nonneg_iff)
  have pos: "(0 :: int) \<le> x div 1000000" if "0 \<le> x" for x :: int
    using that by (simp add: pos_imp_zdiv_nonneg_iff)
  consider "0 \<le> d" | "d < 0" "0 \<le> e" | "e < 0" using de by linarith
  then show ?thesis
  proof cases
    case 1
    with de show ?thesis by (simp add: int_total_seconds_def zdiv_mono1)
  next
    case 2
    with neg[of d] pos[of e] show ?thesis by (simp add: int_total_seconds_def)
  next
    case 3
    with de have "d < 0" by simp
    moreover from de have "(- e) div 1000000 \<le> (- d) div 1000000" by (simp add: zdiv_mono1)
    ultimately show ?thesis using 3 by (simp add: int_total_seconds_def)
  qed
qed

lemma int_total_seconds_minutes:
  "int_total_seconds (minutes 29) = 1740" "int_total_seconds (minutes 30) = 1800"
  by (simp_all add: int_total_seconds_def minutes_def)

lemma get_block_remaining_time_found:
  assumes "failed_attempts_since db uname (now1 - minutes 1) \<noteq> []"
  shows "get_block_remaining_time db uname now1 now2 =
           max 0 (int_total_seconds
             (Min (timestamp ` set (failed_attempts_since db uname (now1 - minutes 1)))
                + minutes 30 - now2))"
proof -
  from first_order_by_timestamp_asc[OF assms] obtain a where
    "first (order_by_timestamp_asc (failed_attempts_since db uname (now1 - minutes 1))) = Some a"
    "timestamp a = Min (timestamp ` set (failed_attempts_since db uname (now1 - minutes 1)))"
    by blast
  then show ?thesis by (simp add: get_block_remaining_time_def Let_def)
qed

lemma get_block_remaining_time_none:
  assumes "failed_attempts_since db uname (now1 - minutes 1) = []"
  shows "get_block_remaining_time db uname now1 now2 = 0"
  using assms by (simp add: get_block_remaining_time_def first_order_by_Nil)

lemma remaining_at_least_29_minutes:
  assumes "failed_attempts_since db uname (now - minutes 1) \<noteq> []"
  shows "1740 \<le> int_total_seconds
           (Min (timestamp ` set (failed_attempts_since db uname (now - minutes 1)))
              + minutes 30 - now)"
proof -
  let ?e = "Min (timestamp ` set (failed_attempts_since db uname (now - minutes 1)))"
  from earliest_in_window[OF assms] have "minutes 29 \<le> ?e + minutes 30 - now"
    by (simp add: minutes_def)
  from int_total_seconds_mono[OF this] show ?thesis
    by (simp add: int_total_seconds_minutes)
qed

lemma is_user_blocked_earliest:
  assumes "5 \<le> length (failed_attempts_since db uname (now1 - minutes 1))"
  shows "is_user_blocked db uname now1 now2 \<longleftrightarrow>
           now2 - minutes 30
             \<le> Min (timestamp ` set (failed_attempts_since db uname (now1 - minutes 1)))"
proof -
  from assms have "failed_attempts_since db uname (now1 - minutes 1) \<noteq> []" by auto
  from first_order_by_timestamp_asc[OF this] obtain a where
    "first (order_by_timestamp_asc (failed_attempts_since db uname (now1 - minutes 1))) = Some a"
    "timestamp a = Min (timestamp ` set (failed_attempts_since db uname (now1 - minutes 1)))"
    by blast
  with assms show ?thesis by (simp add: is_user_blocked_def Let_def)
qed

lemma five_recent_failures_block:
  assumes "5 \<le> length (failed_attempts_since db uname (now1 - minutes 1))"
    and "now2 \<le> now1 + minutes 29"
  shows "is_user_blocked db uname now1 now2"
proof -
  from assms(1) have ne: "failed_attempts_since db uname (now1 - minutes 1) \<noteq> []" by auto
  from earliest_in_window[OF ne] assms(2)
  have "now2 - minutes 30
          \<le> Min (timestamp ` set (failed_attempts_since db uname (now1 - minutes 1)))"
    by (simp add: minutes_def)
  with is_user_blocked_earliest[OF assms(1)] show ?thesis by simp
qed

lemmas example_defs = alice_db_def alice_two_db_def record_failures_def fresh_db_def
  log_login_attempt_def failed_attempts_since_def seconds_def minutes_def Let_def

section \<open>Claims about the rate limiter\<close>

text \<open>
  C1. When the attempt log holds at least five failed attempts of a user name with a
  timestamp no older than one minute before the clock reading, \<open>is_user_blocked\<close> answers
  true exactly if the earliest of these attempts is no older than thirty minutes before
  the (second) clock reading, and false otherwise.
\<close>

theorem is_user_blocked_at_threshold:
  assumes "5 \<le> length (failed_attempts_since db uname (now1 - minutes 1))"
  shows "is_user_blocked db uname now1 now2 \<longleftrightarrow>
           now2 - minutes 30
             \<le> Min (timestamp ` set (failed_attempts_since db uname (now1 - minutes 1)))"
  using assms by (rule is_user_blocked_earliest)

theorem is_user_blocked_at_threshold_witness:
  "5 \<le> length (failed_attempts_since alice_db ''alice'' (seconds 145 - minutes 1))
   \<and> is_user_blocked alice_db ''alice'' (seconds 145) (seconds 145)
   \<and> \<not> is_user_blocked alice_db ''alice'' (seconds 145) (seconds 2000)"
proof -
  have h: "5 \<le> length (failed_attempts_since alice_db ''alice'' (seconds 145 - minutes 1))"
    by (simp add: example_defs)
  have m: "Min (timestamp ` set (failed_attempts_since alice_db ''alice'' (seconds 145 - minutes 1)))
             = seconds 100"
    by (simp add: example_defs)
  show ?thesis
    using h is_user_blocked_at_threshold[OF h, of "seconds 145"]
      is_user_blocked_at_threshold[OF h, of "seconds 2000"]
    by (simp add: m) (simp add: seconds_def minutes_def)
qed

text \<open>
  C2. \<open>get_block_remaining_time\<close> is 0 when the log holds no failed attempt of the user
  name from the last minute; otherwise it is the time from the clock reading to thirty
  minutes after the earliest such attempt, at least 0, in whole seconds. No count of five
  is applied: with one to four recent failed attempts the user is not blocked, and the
  result at that instant is positive all the same.
\<close>

theorem get_block_remaining_time_value:
  "get_block_remaining_time db uname now1 now2 =
     (if failed_attempts_since db uname (now1 - minutes 1) = [] then 0
      else int_total_seconds
             (max 0 (Min (timestamp ` set (failed_attempts_since db uname (now1 - minutes 1)))
                       + minutes 30 - now2)))
   \<and> (1 \<le> length (failed_attempts_since db uname (now - minutes 1))
        \<and> length (failed_attempts_since db uname (now - minutes 1)) \<le> 4
      \<longrightarrow> \<not> is_user_blocked db uname now now
          \<and> 0 < get_block_remaining_time db uname now now)"
proof (intro conjI impI)
  show "get_block_remaining_time db uname now1 now2 =
     (if failed_attempts_since db uname (now1 - minutes 1) = [] then 0
      else int_total_seconds
             (max 0 (Min (timestamp ` set (failed_attempts_since db uname (now1 - minutes 1)))
                       + minutes 30 - now2)))"
  proof (cases "failed_attempts_since db uname (now1 - minutes 1) = []")
    case True
    then show ?thesis by (simp add: get_block_remaining_time_none)
  next
    case False
    have "max 0 (int_total_seconds d) = int_total_seconds (max 0 d)" for d
      by (simp add: int_total_seconds_def max_def pos_imp_zdiv_nonneg_iff)
    with False show ?thesis by (simp add: get_block_remaining_time_found)
  qed
next
  assume a: "1 \<le> length (failed_attempts_since db uname (now - minutes 1))
        \<and> length (failed_attempts_since db uname (now - minutes 1)) \<le> 4"
  then show "\<not> is_user_blocked db uname now now"
    by (simp add: is_user_blocked_def Let_def)
  from a have ne: "failed_attempts_since db uname (now - minutes 1) \<noteq> []" by auto
  from remaining_at_least_29_minutes[OF ne] show "0 < get_block_remaining_time db uname now now"
    by (simp add: get_block_remaining_time_found[OF ne])
qed

theorem get_block_remaining_time_value_witness:
  "1 \<le> length (failed_attempts_since alice_two_db ''alice'' (seconds 150 - minutes 1))
   \<and> length (failed_attempts_since alice_two_db ''alice'' (seconds 150 - minutes 1)) \<le> 4
   \<and> \<not> is_user_blocked alice_two_db ''alice'' (seconds 150) (seconds 150)
   \<and> 0 < get_block_remaining_time alice_two_db ''alice'' (seconds 150) (seconds 150)"
proof -
  have h: "1 \<le> length (failed_attempts_since alice_two_db ''alice'' (seconds 150 - minutes 1))
   \<and> length (failed_attempts_since alice_two_db ''alice'' (seconds 150 - minutes 1)) \<le> 4"
    by (simp add: example_defs)
  show ?thesis
    using h get_block_remaining_time_value[of alice_two_db "''alice''" 0 0 "seconds 150"]
    by blast
qed

text \<open>
  C3. With fewer than five failed attempts of the user name in the last minute
  \<open>is_user_blocked\<close> answers false, whatever the rest of the log holds and however recent
  the failure that once completed a block; in particular a user name with no attempt in
  the log is not blocked.
\<close>

theorem is_user_blocked_below_threshold:
  "(length (failed_attempts_since db uname (now1 - minutes 1)) < 5
      \<longrightarrow> \<not> is_user_blocked db uname now1 now2)
   \<and> (filter (\<lambda>a. LoginAttempt.username a = uname) (login_attempts db) = []
      \<longrightarrow> \<not> is_user_blocked db uname now1 now2)"
proof (intro conjI impI)
  assume "length (failed_attempts_since db uname (now1 - minutes 1)) < 5"
  then show "\<not> is_user_blocked db uname now1 now2"
    by (simp add: is_user_blocked_def Let_def)
next
  assume "filter (\<lambda>a. LoginAttempt.username a = uname) (login_attempts db) = []"
  then have "failed_attempts_since db uname (now1 - minutes 1) = []"
    by (auto simp add: failed_attempts_since_def filter_empty_conv)
  then show "\<not> is_user_blocked db uname now1 now2"
    by (simp add: is_user_blocked_def Let_def)
qed

theorem is_user_blocked_below_threshold_witness:
  "is_user_blocked alice_db ''alice'' (seconds 145) (seconds 145)
   \<and> length (failed_attempts_since alice_db ''alice'' (seconds 165 - minutes 1)) < 5
   \<and> \<not> is_user_blocked alice_db ''alice'' (seconds 165) (seconds 165)
   \<and> filter (\<lambda>a. LoginAttempt.username a = ''bob'') (login_attempts alice_db) = []
   \<and> \<not> is_user_blocked alice_db ''bob'' (seconds 145) (seconds 145)"
proof -
  have b: "is_user_blocked alice_db ''alice'' (seconds 145) (seconds 145)"
    by (simp add: is_user_blocked_def order_by_timestamp_asc_def first_def example_defs)
  have h1: "length (failed_attempts_since alice_db ''alice'' (seconds 165 - minutes 1)) < 5"
    by (simp add: example_defs)
  have h2: "filter (\<lambda>a. LoginAttempt.username a = ''bob'') (login_attempts alice_db) = []"
    by (simp add: example_defs)
  show ?thesis
    using b h1 h2
      is_user_blocked_below_threshold[of alice_db "''alice''" "seconds 165" "seconds 165"]
      is_user_blocked_below_threshold[of alice_db "''bob''" "seconds 145" "seconds 145"]
    by blast
qed

text \<open>
  C4. With failed attempts of alice at seconds 100 and 130 and nothing recorded
  afterwards, \<open>get_block_remaining_time\<close> is 1750 at second 150 and 1760 at second 170:
  once the attempt of second 100 has left the one-minute window, the time is counted
  from the attempt of second 130, and the remaining time has grown. Five minutes after
  the last of five failures the window is empty and the function returns 0, not the 1500
  seconds or so that are left of thirty minutes.
\<close>

theorem get_block_remaining_time_grows:
  "list_all (\<lambda>a. timestamp a \<le> seconds 150) (login_attempts alice_two_db)
   \<and> get_block_remaining_time alice_two_db ''alice'' (seconds 150) (seconds 150) = 1750
   \<and> get_block_remaining_time alice_two_db ''alice'' (seconds 170) (seconds 170) = 1760
   \<and> get_block_remaining_time alice_db ''alice'' (seconds 440) (seconds 440) = 0"
  by (simp add: get_block_remaining_time_def int_total_seconds_def order_by_timestamp_asc_def
      first_def example_defs)

text \<open>
  C5. Read at a single instant, \<open>is_user_blocked\<close> is the count-only check: it answers
  true exactly if at least five failed attempts of the user name are no older than one
  minute. An attempt that recent is also no older than thirty minutes, so the test on the
  earliest attempt never fails.
\<close>

theorem is_user_blocked_is_count_check:
  "is_user_blocked db uname now now = blocked_by_count db uname now"
proof (cases "5 \<le> length (failed_attempts_since db uname (now - minutes 1))")
  case True
  then have ne: "failed_attempts_since db uname (now - minutes 1) \<noteq> []" by auto
  from first_order_by_timestamp_asc[OF ne] obtain a where
    a: "first (order_by_timestamp_asc (failed_attempts_since db uname (now - minutes 1))) = Some a"
      "a \<in> set (failed_attempts_since db uname (now - minutes 1))"
    by blast
  from failed_attempts_since_bound[OF a(2)] have "now - minutes 30 \<le> timestamp a"
    by (simp add: minutes_def)
  with True a(1) show ?thesis
    by (simp add: is_user_blocked_def blocked_by_count_def recent_failure_count_def
        failed_attempts_since_def[symmetric] Let_def)
next
  case False
  then show ?thesis
    by (simp add: is_user_blocked_def blocked_by_count_def recent_failure_count_def
        failed_attempts_since_def[symmetric] Let_def)
qed

text \<open>
  C6. A successful attempt, wherever it stands in the log, is not among the failed
  attempts that the two functions look at: the failed attempts of a log with a successful
  attempt in it are those before it followed by those after it, and both functions answer
  as they do on the log without it.
\<close>

theorem successful_attempt_never_counts:
  "failed_attempts_since (db\<lparr>login_attempts := xs @ a\<lparr>success := 1\<rparr> # ys\<rparr>) uname since =
     failed_attempts_since (db\<lparr>login_attempts := xs\<rparr>) uname since
       @ failed_attempts_since (db\<lparr>login_attempts := ys\<rparr>) uname since
   \<and> is_user_blocked (db\<lparr>login_attempts := xs @ a\<lparr>success := 1\<rparr> # ys\<rparr>) uname now1 now2 =
       is_user_blocked (db\<lparr>login_attempts := xs @ ys\<rparr>) uname now1 now2
   \<and> get_block_remaining_time (db\<lparr>login_attempts := xs @ a\<lparr>success := 1\<rparr> # ys\<rparr>) uname now1 now2 =
       get_block_remaining_time (db\<lparr>login_attempts := xs @ ys\<rparr>) uname now1 now2"
proof -
  have "failed_attempts_since (db\<lparr>login_attempts := xs @ a\<lparr>success := 1\<rparr> # ys\<rparr>) uname t =
          failed_attempts_since (db\<lparr>login_attempts := xs @ ys\<rparr>) uname t" for t
    by (simp add: failed_attempts_since_def)
  then show ?thesis
    by (simp add: is_user_blocked_def get_block_remaining_time_def)
      (simp add: failed_attempts_since_def)
qed

text \<open>
  C10. When no timestamp of the log lies after the instant of the call,
  \<open>get_block_remaining_time\<close> is between 0 and 1800. When the last minute holds a failed
  attempt of the user name, it is at least 1740 and equals the whole seconds from the
  instant to thirty minutes after the earliest such attempt: taking the maximum with 0
  changes nothing.
\<close>

theorem get_block_remaining_time_range:
  assumes "\<forall>a \<in> set (login_attempts db). timestamp a \<le> now"
  shows "0 \<le> get_block_remaining_time db uname now now
         \<and> get_block_remaining_time db uname now now \<le> 1800
         \<and> (failed_attempts_since db uname (now - minutes 1) \<noteq> []
            \<longrightarrow> 1740 \<le> get_block_remaining_time db uname now now
                \<and> get_block_remaining_time db uname now now =
                    int_total_seconds
                      (Min (timestamp ` set (failed_attempts_since db uname (now - minutes 1)))
                         + minutes 30 - now))"
proof (cases "failed_attempts_since db uname (now - minutes 1) = []")
  case True
  then show ?thesis by (simp add: get_block_remaining_time_none)
next
  case False
  let ?e = "Min (timestamp ` set (failed_attempts_since db uname (now - minutes 1)))"
  have lo: "1740 \<le> int_total_seconds (?e + minutes 30 - now)"
    by (rule remaining_at_least_29_minutes[OF False])
  have "?e \<in> timestamp ` set (failed_attempts_since db uname (now - minutes 1))"
    using False by (intro Min_in) simp_all
  with failed_attempts_since_subset[of db uname "now - minutes 1"] assms
  have "?e \<le> now" by auto
  then have "?e + minutes 30 - now \<le> minutes 30" by simp
  from int_total_seconds_mono[OF this]
  have hi: "int_total_seconds (?e + minutes 30 - now) \<le> 1800"
    by (simp add: int_total_seconds_minutes)
  from lo hi False show ?thesis
    by (simp add: get_block_remaining_time_found[OF False])
qed

theorem get_block_remaining_time_range_witness:
  "list_all (\<lambda>a. timestamp a \<le> seconds 145) (login_attempts alice_db)
   \<and> failed_attempts_since alice_db ''alice'' (seconds 145 - minutes 1) \<noteq> []
   \<and> get_block_remaining_time alice_db ''alice'' (seconds 145) (seconds 145) = 1755"
proof -
  have h: "\<forall>a \<in> set (login_attempts alice_db). timestamp a \<le> seconds 145"
    by (simp add: example_defs)
  have ne: "failed_attempts_since alice_db ''alice'' (seconds 145 - minutes 1) \<noteq> []"
    by (simp add: example_defs)
  have m: "Min (timestamp ` set (failed_attempts_since alice_db ''alice'' (seconds 145 - minutes 1)))
             = seconds 100"
    by (simp add: example_defs)
  have "int_total_seconds (seconds 100 + minutes 30 - seconds 145) = 1755"
    by (simp add: int_total_seconds_def seconds_def minutes_def)
  with h ne m get_block_remaining_time_range[OF h, of "''alice''"] show ?thesis
    by (simp add: list_all_iff)
qed

section \<open>Claims about the endpoints\<close>

lemma get_user_by_username_eq: "get_user_by_username db uname = get_user db uname"
  by (simp add: get_user_by_username_def get_user_def)

lemma authenticate_user_unknown:
  "get_user_by_username db uname = None \<Longrightarrow> authenticate_user v db uname pw = Inr None"
  by (simp add: authenticate_user_def get_user_by_username_eq)

lemma login_blocked:
  assumes "is_user_blocked db (OAuth2PasswordRequestForm.username form)
             (blocked_now1 clk) (blocked_now2 clk)"
  shows "login v tok db req form clk =
           (Inl \<lparr>status_code = 429,
                  detail = blocked_detail
                    (get_block_remaining_time db (OAuth2PasswordRequestForm.username form)
                       (remaining_now1 clk) (remaining_now2 clk)),
                  headers = [(''WWW-Authenticate'', ''Bearer'')]\<rparr>, db)"
  using assms by (simp add: login_def Let_def HTTP_429_TOO_MANY_REQUESTS_def)

lemma login_for_access_token_blocked:
  assumes "is_user_blocked db (OAuth2PasswordRequestForm.username form)
             (blocked_now1 clk) (blocked_now2 clk)"
  shows "login_for_access_token v tok db req form clk =
           (Inl \<lparr>status_code = 429,
                  detail = blocked_detail
                    (get_block_remaining_time db (OAuth2PasswordRequestForm.username form)
                       (remaining_now1 clk) (remaining_now2 clk)),
                  headers = [(''WWW-Authenticate'', ''Bearer'')]\<rparr>, db)"
  using assms by (simp add: login_for_access_token_def Let_def HTTP_429_TOO_MANY_REQUESTS_def)

text \<open>
  Past the block check both handlers do the same, up to the message of their 500 answer:
  the user row that the login handler looks up first is the one that
  \<open>authenticate_user\<close> looks up again.
\<close>

lemma login_not_blocked:
  assumes "\<not> is_user_blocked db (OAuth2PasswordRequestForm.username form)
             (blocked_now1 clk) (blocked_now2 clk)"
  shows "login v tok db req form clk =
           (case authenticate_user v db (OAuth2PasswordRequestForm.username form) (password form) of
              Inl e \<Rightarrow> (Inl login_error, db)
            | Inr None \<Rightarrow> (Inl incorrect_credentials,
                 log_login_attempt db (OAuth2PasswordRequestForm.username form)
                   (client_ip_of req) False (log_now clk))
            | Inr (Some user) \<Rightarrow>
                (case tok (User.username user) (hours 24) (token_now clk) of
                   Inl e \<Rightarrow> Inl login_error
                 | Inr encoded_jwt \<Rightarrow>
                     Inr \<lparr>access_token = encoded_jwt, token_type = ''bearer''\<rparr>,
                 log_login_attempt db (OAuth2PasswordRequestForm.username form)
                   (client_ip_of req) True (log_now clk)))"
proof (cases "get_user_by_username db (OAuth2PasswordRequestForm.username form)")
  case None
  with assms authenticate_user_unknown[OF None, of v "password form"] show ?thesis
    by (simp add: login_def Let_def client_ip_of_def)
next
  case (Some db_user)
  with assms show ?thesis
    by (simp add: login_def Let_def client_ip_of_def split: sum.splits option.splits)
qed

lemma login_for_access_token_not_blocked:
  assumes "\<not> is_user_blocked db (OAuth2PasswordRequestForm.username form)
             (blocked_now1 clk) (blocked_now2 clk)"
  shows "login_for_access_token v tok db req form clk =
           (case authenticate_user v db (OAuth2PasswordRequestForm.username form) (password form) of
              Inl e \<Rightarrow> (Inl token_error, db)
            | Inr None \<Rightarrow> (Inl incorrect_credentials,
                 log_login_attempt db (OAuth2PasswordRequestForm.username form)
                   (client_ip_of req) False (log_now clk))
            | Inr (Some user) \<Rightarrow>
                (case tok (User.username user) (hours 24) (token_now clk) of
                   Inl e \<Rightarrow> Inl token_error
                 | Inr encoded_jwt \<Rightarrow>
                     Inr \<lparr>access_token = encoded_jwt, token_type = ''bearer''\<rparr>,
                 log_login_attempt db (OAuth2PasswordRequestForm.username form)
                   (client_ip_of req) True (log_now clk)))"
  using assms
  by (simp add: login_for_access_token_def Let_def client_ip_of_def
      split: sum.splits option.splits)

lemma login_attempts_log_login_attempt:
  "login_attempts (log_login_attempt db uname ip ok now) =
     login_attempts db @ [\<lparr>LoginAttempt.username = uname, ip_address = Some ip,
                            success = (if ok then 1 else 0), timestamp = now\<rparr>]"
  by (simp add: log_login_attempt_def)

lemma users_log_login_attempt: "users (log_login_attempt db uname ip ok now) = users db"
  by (simp add: log_login_attempt_def)

lemma status_code_errors:
  "status_code login_error = 500" "status_code token_error = 500"
  "status_code incorrect_credentials = 401"
  by (simp_all add: login_error_def token_error_def incorrect_credentials_def
      HTTP_500_INTERNAL_SERVER_ERROR_def HTTP_401_UNAUTHORIZED_def)

text \<open>What either endpoint does with a call: the status it answers and the log it leaves.\<close>

lemma handle_blocked:
  assumes "is_user_blocked db (OAuth2PasswordRequestForm.username (form_data c))
             (blocked_now1 (clock c)) (blocked_now2 (clock c))"
  shows "response_status (fst (handle v tok db c)) = 429" "snd (handle v tok db c) = db"
  using assms
  by (simp_all add: handle_def login_blocked login_for_access_token_blocked response_status_def
      split: endpoint.splits)

lemma handle_not_blocked:
  assumes "\<not> is_user_blocked db (OAuth2PasswordRequestForm.username (form_data c))
             (blocked_now1 (clock c)) (blocked_now2 (clock c))"
  shows "response_status (fst (handle v tok db c)) =
           (case authenticate_user v db (OAuth2PasswordRequestForm.username (form_data c))
                   (password (form_data c)) of
              Inl e \<Rightarrow> 500
            | Inr None \<Rightarrow> 401
            | Inr (Some user) \<Rightarrow>
                (case tok (User.username user) (hours 24) (token_now (clock c)) of
                   Inl e \<Rightarrow> 500
                 | Inr encoded_jwt \<Rightarrow> 200))"
    and "login_attempts (snd (handle v tok db c)) =
           login_attempts db @
             (case authenticate_user v db (OAuth2PasswordRequestForm.username (form_data c))
                     (password (form_data c)) of
                Inl e \<Rightarrow> []
              | Inr found \<Rightarrow> [attempt_row c (found \<noteq> None)])"
    and "users (snd (handle v tok db c)) = users db"
  using assms
  by (auto simp add: handle_def login_not_blocked login_for_access_token_not_blocked
      response_status_def status_code_errors attempt_row_def
      login_attempts_log_login_attempt users_log_login_attempt
      split: endpoint.splits option.splits sum.splits)

lemma handle_401:
  assumes "response_status (fst (handle v tok db c)) = 401"
  shows "login_attempts (snd (handle v tok db c)) = login_attempts db @ [attempt_row c False]"
proof (cases "is_user_blocked db (OAuth2PasswordRequestForm.username (form_data c))
             (blocked_now1 (clock c)) (blocked_now2 (clock c))")
  case True
  from handle_blocked(1)[OF True, of v tok] assms show ?thesis by simp
next
  case False
  from handle_not_blocked(1)[OF False, of v tok] assms
  have "authenticate_user v db (OAuth2PasswordRequestForm.username (form_data c))
                 (password (form_data c)) = Inr None"
    by (simp split: sum.splits option.splits)
  with handle_not_blocked(2)[OF False, of v tok] show ?thesis by simp
qed

lemma serve_all_401:
  "map response_status (fst (serve v tok db cs)) = replicate (length cs) 401 \<Longrightarrow>
   login_attempts (snd (serve v tok db cs)) =
     login_attempts db @ map (\<lambda>c. attempt_row c False) cs"
proof (induction cs arbitrary: db)
  case Nil
  then show ?case by simp
next
  case (Cons c cs)
  obtain r db' where h: "handle v tok db c = (r, db')" by (cases "handle v tok db c")
  obtain rs db'' where s: "serve v tok db' cs = (rs, db'')" by (cases "serve v tok db' cs")
  from Cons.prems h s have r: "response_status r = 401"
    and rs: "map response_status (fst (serve v tok db' cs)) = replicate (length cs) 401"
    by simp_all
  from handle_401[of v tok db c] h r
  have "login_attempts db' = login_attempts db @ [attempt_row c False]" by simp
  with Cons.IH[OF rs] h s show ?case by simp
qed

text \<open>
  C7. A login or token request for a user name that \<open>is_user_blocked\<close> reports blocked
  is answered with status 429; the message carries the remaining time divided by 60 as
  the minutes and its remainder as the seconds; the database is returned as it was. The
  answer depends neither on the password nor on the hashing library nor on the users
  table: no credential is verified.
\<close>

theorem blocked_request_rejected:
  assumes "is_user_blocked db (OAuth2PasswordRequestForm.username form)
             (blocked_now1 clk) (blocked_now2 clk)"
    and "remaining = get_block_remaining_time db (OAuth2PasswordRequestForm.username form)
                       (remaining_now1 clk) (remaining_now2 clk)"
    and "rejection =
           \<lparr>status_code = 429,
            detail = ''Account temporarily blocked due to too many failed login attempts. Please try again in ''
                     @ str_int (remaining div 60) @ '' minutes and ''
                     @ str_int (remaining mod 60) @ '' seconds.'',
            headers = [(''WWW-Authenticate'', ''Bearer'')]\<rparr>"
  shows "login verify_password create_access_token db req form clk = (Inl rejection, db)
         \<and> login_for_access_token verify_password create_access_token db req form clk
             = (Inl rejection, db)"
  using assms
  by (simp add: login_blocked login_for_access_token_blocked blocked_detail_def)

theorem blocked_request_rejected_witness:
  "is_user_blocked alice_db ''alice'' (seconds 145) (seconds 145)
   \<and> login example_verify example_token alice_db \<lparr>client = None\<rparr>
         \<lparr>OAuth2PasswordRequestForm.username = ''alice'', password = ''alice1''\<rparr>
         (clock_at (seconds 145))
       = (Inl \<lparr>status_code = 429,
            detail = ''Account temporarily blocked due to too many failed login attempts. Please try again in 29 minutes and 15 seconds.'',
            headers = [(''WWW-Authenticate'', ''Bearer'')]\<rparr>, alice_db)
   \<and> login_for_access_token example_verify example_token alice_db \<lparr>client = None\<rparr>
         \<lparr>OAuth2PasswordRequestForm.username = ''alice'', password = ''alice1''\<rparr>
         (clock_at (seconds 145))
       = (Inl \<lparr>status_code = 429,
            detail = ''Account temporarily blocked due to too many failed login attempts. Please try again in 29 minutes and 15 seconds.'',
            headers = [(''WWW-Authenticate'', ''Bearer'')]\<rparr>, alice_db)"
proof -
  have b: "is_user_blocked alice_db ''alice'' (seconds 145) (seconds 145)"
    by (simp add: is_user_blocked_def order_by_timestamp_asc_def first_def example_defs)
  have r: "get_block_remaining_time alice_db ''alice'' (seconds 145) (seconds 145) = 1755"
    by (simp add: get_block_remaining_time_def int_total_seconds_def order_by_timestamp_asc_def
      first_def example_defs)
  have s: "str_int 29 = ''29''" "str_int 15 = ''15''"
    by code_simp+
  have c: "blocked_now1 (clock_at t) = t" "blocked_now2 (clock_at t) = t"
    "remaining_now1 (clock_at t) = t" "remaining_now2 (clock_at t) = t" for t
    by (simp_all add: clock_at_def)
  have b': "is_user_blocked alice_db
              (OAuth2PasswordRequestForm.username
                 \<lparr>OAuth2PasswordRequestForm.username = ''alice'', password = ''alice1''\<rparr>)
              (blocked_now1 (clock_at (seconds 145))) (blocked_now2 (clock_at (seconds 145)))"
    using b by (simp add: c)
  show ?thesis
    using b blocked_request_rejected[OF b' refl refl, of example_verify example_token
        "\<lparr>client = None\<rparr>"]
    by (simp add: c r s)
qed

text \<open>
  C8. Either endpoint leaves the attempt log as it was, followed by nothing when the
  request is rejected as blocked or when the credential check raises (the request is then
  answered 500), and otherwise by exactly one row: the user name of the form, the address
  of the client, success 1 if \<open>authenticate_user\<close> finds the user and the password
  verifies and 0 if not (unknown user names included), and the clock reading of
  \<open>log_login_attempt\<close>. The row of a verified password stays when the creation of the
  token raises afterwards. \<open>log_login_attempt\<close> itself only appends. The rows already
  there are neither changed nor removed, and the users table is untouched.
  \<open>is_user_blocked\<close> and \<open>get_block_remaining_time\<close> only query the table.
\<close>

theorem one_row_per_checked_request:
  "login_attempts (snd (handle verify_password create_access_token db c)) =
     login_attempts db @
       (if is_user_blocked db (OAuth2PasswordRequestForm.username (form_data c))
             (blocked_now1 (clock c)) (blocked_now2 (clock c))
        then []
        else case authenticate_user verify_password db
                    (OAuth2PasswordRequestForm.username (form_data c)) (password (form_data c)) of
               Inl e \<Rightarrow> []
             | Inr found \<Rightarrow>
                 [\<lparr>LoginAttempt.username = OAuth2PasswordRequestForm.username (form_data c),
                   ip_address = Some (client_ip_of (request c)),
                   success = (if found \<noteq> None then 1 else 0),
                   timestamp = log_now (clock c)\<rparr>])
   \<and> response_status (fst (handle verify_password create_access_token db c)) =
       (if is_user_blocked db (OAuth2PasswordRequestForm.username (form_data c))
             (blocked_now1 (clock c)) (blocked_now2 (clock c))
        then 429
        else case authenticate_user verify_password db
                    (OAuth2PasswordRequestForm.username (form_data c)) (password (form_data c)) of
               Inl e \<Rightarrow> 500
             | Inr None \<Rightarrow> 401
             | Inr (Some user) \<Rightarrow>
                 (case create_access_token (User.username user) (hours 24)
                         (token_now (clock c)) of
                    Inl e \<Rightarrow> 500
                  | Inr encoded_jwt \<Rightarrow> 200))
   \<and> users (snd (handle verify_password create_access_token db c)) = users db
   \<and> login_attempts (log_login_attempt db uname ip ok now) =
       login_attempts db @
         [\<lparr>LoginAttempt.username = uname, ip_address = Some ip,
           success = (if ok then 1 else 0), timestamp = now\<rparr>]"
proof (cases "is_user_blocked db (OAuth2PasswordRequestForm.username (form_data c))
             (blocked_now1 (clock c)) (blocked_now2 (clock c))")
  case True
  with handle_blocked[OF True, of verify_password create_access_token] show ?thesis
    by (simp add: login_attempts_log_login_attempt)
next
  case False
  with handle_not_blocked[OF False, of verify_password create_access_token] show ?thesis
    by (simp add: login_attempts_log_login_attempt attempt_row_def split: sum.splits)
qed

theorem one_row_per_checked_request_witness:
  "login_attempts (snd (handle example_verify example_token fresh_db
                          (call_at LoginEndpoint ''carol'' ''carol1'' (seconds 100))))
     = [\<lparr>LoginAttempt.username = ''carol'', ip_address = Some ''127.0.0.1'', success = 1,
          timestamp = seconds 100\<rparr>]
   \<and> login_attempts (snd (handle example_verify example_token fresh_db
                            (call_at TokenEndpoint ''carol'' ''guess'' (seconds 100))))
     = [\<lparr>LoginAttempt.username = ''carol'', ip_address = Some ''127.0.0.1'', success = 0,
          timestamp = seconds 100\<rparr>]
   \<and> login_attempts (snd (handle example_verify example_token fresh_db
                            (call_at LoginEndpoint ''bob'' ''guess'' (seconds 100))))
     = [\<lparr>LoginAttempt.username = ''bob'', ip_address = Some ''127.0.0.1'', success = 0,
          timestamp = seconds 100\<rparr>]
   \<and> login_attempts (snd (handle example_verify example_token fresh_db
                            (call_at TokenEndpoint ''carol'' nul_password (seconds 100))))
     = []
   \<and> login_attempts (snd (handle example_verify example_token alice_db
                            (call_at TokenEndpoint ''alice'' ''alice1'' (seconds 145))))
     = login_attempts alice_db"
proof -
  have nb: "\<not> is_user_blocked fresh_db uname t t" for uname t
    by (simp add: is_user_blocked_def failed_attempts_since_def fresh_db_def)
  have b: "is_user_blocked alice_db ''alice'' (seconds 145) (seconds 145)"
    by (simp add: is_user_blocked_def order_by_timestamp_asc_def first_def example_defs)
  have a: "authenticate_user example_verify fresh_db ''carol'' ''carol1''
             = Inr (Some \<lparr>User.username = ''carol'', email = ''carol@example.com'',
                            hashed_password = ''1lorac''\<rparr>)"
    "authenticate_user example_verify fresh_db ''carol'' ''guess'' = Inr None"
    "authenticate_user example_verify fresh_db ''bob'' ''guess'' = Inr None"
    "authenticate_user example_verify fresh_db ''carol'' nul_password
       = Inl (Exception ''NUL character in password'')"
    by (simp_all add: authenticate_user_def get_user_def first_def fresh_db_def
        example_verify_def nul_password_def)
  have l: "login_attempts fresh_db = []" by (simp add: fresh_db_def)
  show ?thesis
    using one_row_per_checked_request[of example_verify example_token fresh_db
        "call_at LoginEndpoint ''carol'' ''carol1'' (seconds 100)"]
      one_row_per_checked_request[of example_verify example_token fresh_db
        "call_at TokenEndpoint ''carol'' ''guess'' (seconds 100)"]
      one_row_per_checked_request[of example_verify example_token fresh_db
        "call_at LoginEndpoint ''bob'' ''guess'' (seconds 100)"]
      one_row_per_checked_request[of example_verify example_token fresh_db
        "call_at TokenEndpoint ''carol'' nul_password (seconds 100)"]
      one_row_per_checked_request[of example_verify example_token alice_db
        "call_at TokenEndpoint ''alice'' ''alice1'' (seconds 145)"]
    by (simp add: call_at_def clock_at_def client_ip_of_def nb b a l)
qed

text \<open>
  A request for carol, who is not blocked, with a NUL character in the password: the
  hashing library raises, either endpoint answers 500, and the attempt log is left
  without a row for the request.
\<close>

theorem raising_check_writes_no_row:
  "\<not> is_user_blocked fresh_db ''carol'' (seconds 100) (seconds 100)
   \<and> response_status (fst (login example_verify example_token fresh_db
         \<lparr>client = None\<rparr>
         \<lparr>OAuth2PasswordRequestForm.username = ''carol'', password = nul_password\<rparr>
         (clock_at (seconds 100)))) = 500
   \<and> login_attempts (snd (login example_verify example_token fresh_db
         \<lparr>client = None\<rparr>
         \<lparr>OAuth2PasswordRequestForm.username = ''carol'', password = nul_password\<rparr>
         (clock_at (seconds 100)))) = login_attempts fresh_db
   \<and> response_status (fst (login_for_access_token example_verify example_token fresh_db
         \<lparr>client = None\<rparr>
         \<lparr>OAuth2PasswordRequestForm.username = ''carol'', password = nul_password\<rparr>
         (clock_at (seconds 100)))) = 500
   \<and> login_attempts (snd (login_for_access_token example_verify example_token fresh_db
         \<lparr>client = None\<rparr>
         \<lparr>OAuth2PasswordRequestForm.username = ''carol'', password = nul_password\<rparr>
         (clock_at (seconds 100)))) = login_attempts fresh_db"
  by (simp add: login_def login_for_access_token_def is_user_blocked_def
      failed_attempts_since_def get_user_by_username_def get_user_def authenticate_user_def
      example_verify_def nul_password_def first_def fresh_db_def clock_at_def
      response_status_def login_error_def token_error_def HTTP_500_INTERNAL_SERVER_ERROR_def
      Let_def)

text \<open>
  C9. Both endpoints read and write the one attempt log. When calls for a user name, at
  least five of them, on whichever endpoints, have each been answered 401, and each was
  recorded no earlier than one minute before the next call's first clock reading, that
  next call for the user name is answered 429 on the login endpoint and on the token
  endpoint alike (the two clock readings of its block check being less than 29 minutes
  apart).
\<close>

theorem failures_shared_across_endpoints:
  assumes "5 \<le> length cs"
    and "\<forall>c \<in> set cs. OAuth2PasswordRequestForm.username (form_data c) = uname
                        \<and> blocked_now1 (clock c6) - minutes 1 \<le> log_now (clock c)"
    and "map response_status (fst (serve verify_password create_access_token db cs))
           = replicate (length cs) 401"
    and "OAuth2PasswordRequestForm.username (form_data c6) = uname"
    and "blocked_now2 (clock c6) \<le> blocked_now1 (clock c6) + minutes 29"
  shows "response_status
           (fst (handle verify_password create_access_token
                   (snd (serve verify_password create_access_token db cs))
                   (c6\<lparr>endpoint := LoginEndpoint\<rparr>))) = 429
         \<and> response_status
           (fst (handle verify_password create_access_token
                   (snd (serve verify_password create_access_token db cs))
                   (c6\<lparr>endpoint := TokenEndpoint\<rparr>))) = 429"
proof -
  let ?db = "snd (serve verify_password create_access_token db cs)"
  let ?since = "blocked_now1 (clock c6) - minutes 1"
  have log: "login_attempts ?db = login_attempts db @ map (\<lambda>c. attempt_row c False) cs"
    by (rule serve_all_401[OF assms(3)])
  have "filter (\<lambda>a. LoginAttempt.username a = uname \<and> success a = 0 \<and> ?since \<le> timestamp a)
          (map (\<lambda>c. attempt_row c False) cs) = map (\<lambda>c. attempt_row c False) cs"
    using assms(2) by (auto simp add: filter_id_conv attempt_row_def)
  then have "length (failed_attempts_since ?db uname ?since)
               = length (failed_attempts_since db uname ?since) + length cs"
    by (simp add: failed_attempts_since_def log)
  with assms(1) have "5 \<le> length (failed_attempts_since ?db uname ?since)" by simp
  from five_recent_failures_block[OF this assms(5)]
  have b: "is_user_blocked ?db uname (blocked_now1 (clock c6)) (blocked_now2 (clock c6))" .
  have "response_status (fst (handle verify_password create_access_token ?db (c6\<lparr>endpoint := e\<rparr>)))
          = 429" for e
    by (rule handle_blocked(1)) (simp add: assms(4) b)
  then show ?thesis by blast
qed

theorem failures_shared_across_endpoints_witness:
  "map response_status (fst (serve example_verify example_token fresh_db carol_calls))
     = [401, 401, 401, 401, 401]
   \<and> response_status
       (fst (handle example_verify example_token
               (snd (serve example_verify example_token fresh_db carol_calls))
               (call_at LoginEndpoint ''carol'' ''carol1'' (seconds 145)))) = 429
   \<and> response_status
       (fst (handle example_verify example_token
               (snd (serve example_verify example_token fresh_db carol_calls))
               (call_at TokenEndpoint ''carol'' ''carol1'' (seconds 145)))) = 429"
proof -
  have h1: "5 \<le> length carol_calls" by (simp add: carol_calls_def)
  have h2: "\<forall>c \<in> set carol_calls.
              OAuth2PasswordRequestForm.username (form_data c) = ''carol''
              \<and> blocked_now1 (clock (call_at LoginEndpoint ''carol'' ''carol1'' (seconds 145)))
                    - minutes 1 \<le> log_now (clock c)"
    by (simp add: carol_calls_def call_at_def clock_at_def seconds_def minutes_def)
  have h3: "map response_status (fst (serve example_verify example_token fresh_db carol_calls))
              = replicate (length carol_calls) 401"
    by (simp add: carol_calls_def call_at_def clock_at_def handle_def login_def
        login_for_access_token_def is_user_blocked_def get_user_by_username_def get_user_def
        authenticate_user_def example_verify_def first_def fresh_db_def response_status_def
        incorrect_credentials_def HTTP_401_UNAUTHORIZED_def log_login_attempt_def
        failed_attempts_since_def seconds_def minutes_def Let_def)
  have h4: "OAuth2PasswordRequestForm.username
              (form_data (call_at LoginEndpoint ''carol'' ''carol1'' (seconds 145))) = ''carol''"
    by (simp add: call_at_def)
  have h5: "blocked_now2 (clock (call_at LoginEndpoint ''carol'' ''carol1'' (seconds 145)))
              \<le> blocked_now1 (clock (call_at LoginEndpoint ''carol'' ''carol1'' (seconds 145)))
                  + minutes 29"
    by (simp add: call_at_def clock_at_def minutes_def)
  have e: "(call_at LoginEndpoint ''carol'' ''carol1'' (seconds 145))\<lparr>endpoint := e\<rparr>
             = call_at e ''carol'' ''carol1'' (seconds 145)" for e
    by (simp add: call_at_def)
  from failures_shared_across_endpoints[OF h1 h2 h3 h4 h5] h3 show ?thesis
    by (simp add: e) (simp add: carol_calls_def)
qed

end
